theory Spec2Isabelle
  imports Complex_Main "HOL-Library.Multiset"
begin

section \<open>Data model (prisma/schema.prisma)\<close>

text \<open>
  Of the three models of the schema, the task and category routes touch \<open>Task\<close>
  and \<open>Category\<close>; every column of the schema is a field of the record. Timestamps (\<open>DateTime\<close>) are integers (milliseconds since the epoch),
  a nullable column (\<open>String?\<close>, \<open>DateTime?\<close>) is an \<open>option\<close>. The \<open>User\<close> table is
  not read by any handler of \<open>routes/tasks.ts\<close> or \<open>routes/categories.ts\<close>: the
  authenticated user id (\<open>req.user!.id\<close>) is a parameter of every handler.
\<close>

datatype TaskStatus = PENDING | IN_PROGRESS | COMPLETED | CANCELLED

record Category =
  cat_id :: string
  cat_name :: string
  cat_color :: string
  cat_userId :: string
  cat_createdAt :: int
  cat_updatedAt :: int

record Task =
  task_id :: string
  task_title :: string
  task_description :: "string option"
  task_dueDate :: "int option"
  task_status :: TaskStatus
  task_userId :: string
  task_categoryId :: "string option"
  task_createdAt :: int
  task_updatedAt :: int

text \<open>
  The store: each table is the list of its rows, in the order the database holds them.
  The primary keys (\<open>@id\<close>) make the ids of a table distinct; that is the predicate
  \<open>ids_unique\<close>. \<open>category_owned\<close> says that a task's category reference, when it
  points to a row of the category table, points to a category of the task's own user:
  the schema's foreign key does not demand it, \<open>createTask\<close> and \<open>updateTask\<close> do.
\<close>

record db =
  categories :: "Category list"
  tasks :: "Task list"



section \<open>JavaScript values\<close>

text \<open>
  A query parameter, a body field and an environment variable are a string or
  \<open>undefined\<close>: a \<open>string option\<close>. \<open>truthy\<close> is JavaScript's truth of such a value
  (\<open>undefined\<close> and the empty string are false), \<open>orElse\<close> is \<open>a || b\<close>, and
  \<open>withDefault\<close> a destructuring default (\<open>{ page = '1' } = req.query\<close>), which
  applies to \<open>undefined\<close> only.
\<close>

definition truthy :: "string option \<Rightarrow> bool" where
  "truthy v = (case v of None \<Rightarrow> False | Some s \<Rightarrow> s \<noteq> [])"

definition orElse :: "string option \<Rightarrow> string \<Rightarrow> string" where
  "orElse v d = (case v of None \<Rightarrow> d | Some s \<Rightarrow> (if s = [] then d else s))"


section \<open>The persistence collaborator (Prisma client)\<close>

text \<open>
  The handlers hand Prisma a \<open>where\<close> object. The record below has one optional field
  for each key a handler of this repository ever sets on a task filter:
  \<open>id\<close>, \<open>userId\<close>, \<open>status\<close>, \<open>categoryId\<close>, the \<open>OR\<close> of the two case-insensitive
  \<open>contains\<close> conditions built from \<open>search\<close>, \<open>dueDate: { lt }\<close> and
  \<open>status: { notIn }\<close>. A field that is \<open>None\<close> is a key the handler did not set.
  Enum values travel as the strings the handler wrote or received.
\<close>

record TaskWhere =
  w_id :: "string option"
  w_userId :: "string option"
  w_status :: "string option"
  w_categoryId :: "string option"
  w_search :: "string option"
  w_dueDate_lt :: "int option"
  w_status_notIn :: "string list option"

definition anyTask :: TaskWhere where
  "anyTask = \<lparr> w_id = None, w_userId = None, w_status = None, w_categoryId = None,
               w_search = None, w_dueDate_lt = None, w_status_notIn = None \<rparr>"

text \<open>
  What a call can throw: Prisma's refusal of a query that does not fit the schema, its
  errors for a violated unique constraint (P2002), a violated foreign key (P2003) and a
  row that an update or delete did not find (P2025), and a plain \<open>Error\<close> with its
  message.
\<close>

datatype error =
    PrismaClientValidationError
  | UniqueConstraintFailed
  | ForeignKeyConstraintFailed
  | RecordNotFound
  | Error string

fun status_of_string :: "string \<Rightarrow> TaskStatus option" where
  "status_of_string s =
     (if s = ''PENDING'' then Some PENDING
      else if s = ''IN_PROGRESS'' then Some IN_PROGRESS
      else if s = ''COMPLETED'' then Some COMPLETED
      else if s = ''CANCELLED'' then Some CANCELLED
      else None)"

definition lower_char :: "char \<Rightarrow> char" where
  "lower_char c =
     (let n = (of_char c :: nat) in if 65 \<le> n \<and> n \<le> 90 then char_of (n + 32) else c)"

fun starts_with :: "string \<Rightarrow> string \<Rightarrow> bool" where
  "starts_with s [] = True"
| "starts_with [] (p # ps) = False"
| "starts_with (c # cs) (p # ps) = (c = p \<and> starts_with cs ps)"

fun contains_str :: "string \<Rightarrow> string \<Rightarrow> bool" where
  "contains_str [] p = (p = [])"
| "contains_str (c # cs) p = (starts_with (c # cs) p \<or> contains_str cs p)"

definition contains_insensitive :: "string \<Rightarrow> string \<Rightarrow> bool" where
  "contains_insensitive s p = contains_str (map lower_char s) (map lower_char p)"

text \<open>
  A row satisfies a \<open>where\<close> object when it satisfies every key that is set (Prisma's
  implicit AND). A comparison with a null column is never true (\<open>dueDate: { lt }\<close>,
  \<open>contains\<close> on a null description).
\<close>

definition task_matches :: "TaskWhere \<Rightarrow> Task \<Rightarrow> bool" where
  "task_matches w t =
     ((case w_id w of None \<Rightarrow> True | Some i \<Rightarrow> task_id t = i) \<and>
      (case w_userId w of None \<Rightarrow> True | Some u \<Rightarrow> task_userId t = u) \<and>
      (case w_status w of None \<Rightarrow> True | Some s \<Rightarrow> status_of_string s = Some (task_status t)) \<and>
      (case w_categoryId w of None \<Rightarrow> True | Some c \<Rightarrow> task_categoryId t = Some c) \<and>
      (case w_search w of None \<Rightarrow> True
       | Some s \<Rightarrow> contains_insensitive (task_title t) s \<or>
           (case task_description t of None \<Rightarrow> False | Some d \<Rightarrow> contains_insensitive d s)) \<and>
      (case w_dueDate_lt w of None \<Rightarrow> True
       | Some n \<Rightarrow> (case task_dueDate t of None \<Rightarrow> False | Some d \<Rightarrow> d < n)) \<and>
      (case w_status_notIn w of None \<Rightarrow> True
       | Some ss \<Rightarrow> Some (task_status t) \<notin> set (map status_of_string ss)))"

text \<open>
  Prisma checks a query against the schema before it runs it: a string that is not a
  value of the enum \<open>TaskStatus\<close> is refused with a \<open>PrismaClientValidationError\<close>,
  which the call throws.
\<close>

definition where_valid :: "TaskWhere \<Rightarrow> bool" where
  "where_valid w =
     ((case w_status w of None \<Rightarrow> True | Some s \<Rightarrow> status_of_string s \<noteq> None) \<and>
      (case w_status_notIn w of None \<Rightarrow> True
       | Some ss \<Rightarrow> list_all (\<lambda>s. status_of_string s \<noteq> None) ss))"

definition task_count :: "db \<Rightarrow> TaskWhere \<Rightarrow> error + nat" where
  "task_count d w =
     (if where_valid w then Inr (length (filter (task_matches w) (tasks d)))
      else Inl PrismaClientValidationError)"

definition task_findFirst :: "db \<Rightarrow> TaskWhere \<Rightarrow> error + Task option" where
  "task_findFirst d w =
     (if where_valid w then Inr (find (task_matches w) (tasks d))
      else Inl PrismaClientValidationError)"

text \<open>
  The filter on categories has the keys the category handlers set: \<open>id\<close>, \<open>userId\<close>,
  \<open>name\<close> and \<open>id: { not }\<close>. All of them are strings, so Prisma has nothing to refuse.
\<close>

record CategoryWhere =
  cw_id :: "string option"
  cw_userId :: "string option"
  cw_name :: "string option"
  cw_id_not :: "string option"

definition anyCategory :: CategoryWhere where
  "anyCategory = \<lparr> cw_id = None, cw_userId = None, cw_name = None, cw_id_not = None \<rparr>"

definition category_matches :: "CategoryWhere \<Rightarrow> Category \<Rightarrow> bool" where
  "category_matches w c =
     ((case cw_id w of None \<Rightarrow> True | Some i \<Rightarrow> cat_id c = i) \<and>
      (case cw_userId w of None \<Rightarrow> True | Some u \<Rightarrow> cat_userId c = u) \<and>
      (case cw_name w of None \<Rightarrow> True | Some n \<Rightarrow> cat_name c = n) \<and>
      (case cw_id_not w of None \<Rightarrow> True | Some i \<Rightarrow> cat_id c \<noteq> i))"

definition category_findFirst :: "db \<Rightarrow> CategoryWhere \<Rightarrow> Category option" where
  "category_findFirst d w = find (category_matches w) (categories d)"

subsection \<open>Ordering\<close>

text \<open>
  \<open>ORDER BY\<close> is a stable insertion sort of the matching rows by the comparison of
  the chosen column: rows that compare equal keep the order of the table (the database
  leaves their order open). A null column sorts as larger than every value, as
  PostgreSQL has it (last ascending, first descending). Strings compare by character
  code, the enum by the order of its declaration.
\<close>

fun place :: "('a \<Rightarrow> 'a \<Rightarrow> bool) \<Rightarrow> 'a \<Rightarrow> 'a list \<Rightarrow> 'a list" where
  "place le x [] = [x]"
| "place le x (y # ys) = (if le x y then x # y # ys else y # place le x ys)"

definition order_rows :: "('a \<Rightarrow> 'a \<Rightarrow> bool) \<Rightarrow> 'a list \<Rightarrow> 'a list" where
  "order_rows le xs = foldr (place le) xs []"








subsection \<open>Numbers\<close>

text \<open>
  A JavaScript number as the handlers use it: an integer, \<open>NaN\<close> or an infinity.
  Integers are exact here (the doubles of the source are exact up to \<open>2^53\<close>); the sign
  of an infinity and of zero is not kept, since a response carries them as \<open>null\<close>
  and \<open>0\<close> either way.
\<close>

datatype number = NaN | Infinite | Num int










subsection \<open>findMany on tasks\<close>




subsection \<open>Writes\<close>


definition category_missing :: "db \<Rightarrow> string option \<Rightarrow> bool" where
  "category_missing d r =
     (case r of None \<Rightarrow> False | Some c \<Rightarrow> c \<notin> set (map cat_id (categories d)))"


text \<open>In the data of an update a field that is \<open>None\<close> is a key that is not set.\<close>

record TaskUpdate =
  tu_title :: "string option"
  tu_description :: "string option"
  tu_dueDate :: "int option option"
  tu_status :: "string option"
  tu_categoryId :: "string option"

definition apply_task_update :: "TaskUpdate \<Rightarrow> int \<Rightarrow> Task \<Rightarrow> Task" where
  "apply_task_update a now t =
     t\<lparr> task_title := (case tu_title a of None \<Rightarrow> task_title t | Some v \<Rightarrow> v),
        task_description := (case tu_description a of None \<Rightarrow> task_description t | Some v \<Rightarrow> Some v),
        task_dueDate := (case tu_dueDate a of None \<Rightarrow> task_dueDate t | Some v \<Rightarrow> v),
        task_status := (case tu_status a of None \<Rightarrow> task_status t
                        | Some v \<Rightarrow> (case status_of_string v of None \<Rightarrow> task_status t | Some st \<Rightarrow> st)),
        task_categoryId := (case tu_categoryId a of None \<Rightarrow> task_categoryId t | Some v \<Rightarrow> Some v),
        task_updatedAt := now \<rparr>"

definition task_update :: "db \<Rightarrow> string \<Rightarrow> TaskUpdate \<Rightarrow> int \<Rightarrow> error + Task \<times> db" where
  "task_update d i a now =
     (if (case tu_status a of None \<Rightarrow> False | Some v \<Rightarrow> status_of_string v = None)
      then Inl PrismaClientValidationError
      else
        (case find (\<lambda>t. task_id t = i) (tasks d) of
           None \<Rightarrow> Inl RecordNotFound
         | Some t \<Rightarrow>
             (if category_missing d (tu_categoryId a) then Inl ForeignKeyConstraintFailed
              else
                (let row = apply_task_update a now t
                 in Inr (row, d\<lparr> tasks := map (\<lambda>x. if task_id x = i then row else x) (tasks d) \<rparr>)))))"

definition task_delete :: "db \<Rightarrow> string \<Rightarrow> error + db" where
  "task_delete d i =
     (case find (\<lambda>t. task_id t = i) (tasks d) of
        None \<Rightarrow> Inl RecordNotFound
      | Some t \<Rightarrow> Inr (d\<lparr> tasks := filter (\<lambda>x. task_id x \<noteq> i) (tasks d) \<rparr>))"

record CategoryCreate =
  cc_name :: "string option"
  cc_color :: string
  cc_userId :: string

definition category_create ::
  "db \<Rightarrow> CategoryCreate \<Rightarrow> string \<Rightarrow> int \<Rightarrow> error + Category \<times> db" where
  "category_create d a newId now =
     (case cc_name a of
        None \<Rightarrow> Inl PrismaClientValidationError
      | Some n \<Rightarrow>
          (if newId \<in> set (map cat_id (categories d)) then Inl UniqueConstraintFailed
           else
             (let row = \<lparr> cat_id = newId, cat_name = n, cat_color = cc_color a,
                          cat_userId = cc_userId a, cat_createdAt = now, cat_updatedAt = now \<rparr>
              in Inr (row, d\<lparr> categories := categories d @ [row] \<rparr>))))"

record CategoryUpdate =
  cu_name :: "string option"
  cu_color :: "string option"

definition apply_category_update :: "CategoryUpdate \<Rightarrow> int \<Rightarrow> Category \<Rightarrow> Category" where
  "apply_category_update a now c =
     c\<lparr> cat_name := (case cu_name a of None \<Rightarrow> cat_name c | Some v \<Rightarrow> v),
        cat_color := (case cu_color a of None \<Rightarrow> cat_color c | Some v \<Rightarrow> v),
        cat_updatedAt := now \<rparr>"

definition category_update ::
  "db \<Rightarrow> string \<Rightarrow> CategoryUpdate \<Rightarrow> int \<Rightarrow> error + Category \<times> db" where
  "category_update d i a now =
     (case find (\<lambda>c. cat_id c = i) (categories d) of
        None \<Rightarrow> Inl RecordNotFound
      | Some c \<Rightarrow>
          (let row = apply_category_update a now c
           in Inr (row, d\<lparr> categories := map (\<lambda>x. if cat_id x = i then row else x) (categories d) \<rparr>)))"

definition category_delete :: "db \<Rightarrow> string \<Rightarrow> error + db" where
  "category_delete d i =
     (case find (\<lambda>c. cat_id c = i) (categories d) of
        None \<Rightarrow> Inl RecordNotFound
      | Some c \<Rightarrow>
          Inr (d\<lparr> categories := filter (\<lambda>x. cat_id x \<noteq> i) (categories d),
                  tasks := map (\<lambda>t. if task_categoryId t = Some i then t\<lparr> task_categoryId := None \<rparr> else t)
                             (tasks d) \<rparr>))"

subsection \<open>Included relations\<close>

text \<open>
  \<open>include: { category: { select: { id, name, color } } }\<close> on a task,
  \<open>include: { _count: { select: { tasks } } }\<close> on a category, and the tasks of a
  category with the fields \<open>getCategory\<close> selects, newest first. Prisma follows the
  relation by the foreign key alone.
\<close>

record CategoryRef =
  ref_id :: string
  ref_name :: string
  ref_color :: string

record TaskView =
  tv_task :: Task
  tv_category :: "CategoryRef option"

definition category_ref :: "Category \<Rightarrow> CategoryRef" where
  "category_ref c = \<lparr> ref_id = cat_id c, ref_name = cat_name c, ref_color = cat_color c \<rparr>"

definition with_category :: "db \<Rightarrow> Task \<Rightarrow> TaskView" where
  "with_category d t =
     \<lparr> tv_task = t,
       tv_category = (case task_categoryId t of
                        None \<Rightarrow> None
                      | Some c \<Rightarrow> map_option category_ref (find (\<lambda>x. cat_id x = c) (categories d))) \<rparr>"

record TaskBrief =
  tb_id :: string
  tb_title :: string
  tb_status :: TaskStatus
  tb_dueDate :: "int option"
  tb_createdAt :: int

record CategoryView =
  cv_category :: Category
  cv_taskCount :: nat

record CategoryDetail =
  cd_category :: Category
  cd_taskCount :: nat
  cd_tasks :: "TaskBrief list"

definition tasks_of_category :: "db \<Rightarrow> Category \<Rightarrow> Task list" where
  "tasks_of_category d c = filter (\<lambda>t. task_categoryId t = Some (cat_id c)) (tasks d)"

definition with_count :: "db \<Rightarrow> Category \<Rightarrow> CategoryView" where
  "with_count d c = \<lparr> cv_category = c, cv_taskCount = length (tasks_of_category d c) \<rparr>"

definition task_brief :: "Task \<Rightarrow> TaskBrief" where
  "task_brief t = \<lparr> tb_id = task_id t, tb_title = task_title t, tb_status = task_status t,
                     tb_dueDate = task_dueDate t, tb_createdAt = task_createdAt t \<rparr>"

definition with_tasks :: "db \<Rightarrow> Category \<Rightarrow> CategoryDetail" where
  "with_tasks d c =
     \<lparr> cd_category = c, cd_taskCount = length (tasks_of_category d c),
       cd_tasks = map task_brief
         (order_rows (\<lambda>a b. task_createdAt b \<le> task_createdAt a) (tasks_of_category d c)) \<rparr>"

section \<open>Responses\<close>

record Stats =
  totalTasks :: nat
  pendingTasks :: nat
  inProgressTasks :: nat
  completedTasks :: nat
  overdueTasks :: nat

record Pagination =
  pg_page :: number
  pg_limit :: number
  pg_total :: nat
  pg_pages :: number

datatype payload =
    NoData
  | StatsData Stats
  | TaskListData "TaskView list" Pagination
  | TaskData TaskView
  | CategoryListData "CategoryView list"
  | CategoryData CategoryView
  | CategoryDetailData CategoryDetail

record response =
  res_status :: nat
  res_success :: bool
  res_message :: "string option"
  res_data :: payload

text \<open>
  A handler either sends a response or throws; what it throws, its wrapper
  (\<open>asyncHandler\<close>) hands to the error middleware.
\<close>

datatype outcome = Responded response | Threw error

definition respond :: "nat \<Rightarrow> bool \<Rightarrow> string option \<Rightarrow> payload \<Rightarrow> outcome" where
  "respond code ok msg dat =
     Responded \<lparr> res_status = code, res_success = ok, res_message = msg, res_data = dat \<rparr>"

section \<open>routes/tasks.ts: getTaskStats\<close>

text \<open>
  The five counts of \<open>getTaskStats\<close>, each with the \<open>where\<close> object the source
  writes; \<open>now\<close> is the value of \<open>new Date()\<close>. \<open>Promise.all\<close> rejects when one of
  the counts does, and the handler's wrapper passes the error on.
\<close>

definition getTaskStats :: "db \<Rightarrow> string \<Rightarrow> int \<Rightarrow> outcome \<times> db" where
  "getTaskStats d userId now =
     (case task_count d (anyTask\<lparr> w_userId := Some userId \<rparr>) of
        Inl e \<Rightarrow> (Threw e, d)
      | Inr nTotal \<Rightarrow>
     (case task_count d (anyTask\<lparr> w_userId := Some userId, w_status := Some ''PENDING'' \<rparr>) of
        Inl e \<Rightarrow> (Threw e, d)
      | Inr nPending \<Rightarrow>
     (case task_count d (anyTask\<lparr> w_userId := Some userId, w_status := Some ''IN_PROGRESS'' \<rparr>) of
        Inl e \<Rightarrow> (Threw e, d)
      | Inr nInProgress \<Rightarrow>
     (case task_count d (anyTask\<lparr> w_userId := Some userId, w_status := Some ''COMPLETED'' \<rparr>) of
        Inl e \<Rightarrow> (Threw e, d)
      | Inr nCompleted \<Rightarrow>
     (case task_count d (anyTask\<lparr> w_userId := Some userId, w_dueDate_lt := Some now,
                                   w_status_notIn := Some [''COMPLETED'', ''CANCELLED''] \<rparr>) of
        Inl e \<Rightarrow> (Threw e, d)
      | Inr nOverdue \<Rightarrow>
          (Responded \<lparr> res_status = 200, res_success = True, res_message = None,
             res_data = StatsData \<lparr> totalTasks = nTotal, pendingTasks = nPending,
               inProgressTasks = nInProgress, completedTasks = nCompleted,
               overdueTasks = nOverdue \<rparr> \<rparr>, d))))))"

section \<open>routes/tasks.ts: the other handlers\<close>


definition if_truthy :: "string option \<Rightarrow> string option" where
  "if_truthy v = (if truthy v then v else None)"






definition getTask :: "db \<Rightarrow> string \<Rightarrow> string \<Rightarrow> outcome \<times> db" where
  "getTask d userId i =
     (case task_findFirst d (anyTask\<lparr> w_id := Some i, w_userId := Some userId \<rparr>) of
        Inl e \<Rightarrow> (Threw e, d)
      | Inr None \<Rightarrow> (respond 404 False (Some ''Task not found'') NoData, d)
      | Inr (Some t) \<Rightarrow> (respond 200 True None (TaskData (with_category d t)), d))"

text \<open>
  \<open>req.body\<close> of the task routes. For \<open>dueDate\<close>, \<open>None\<close> is \<open>undefined\<close>,
  \<open>Some None\<close> a value that is defined and false (\<open>null\<close>, the empty string), and
  \<open>Some (Some x)\<close> a date string, with \<open>x\<close> the instant \<open>new Date(dueDate)\<close> denotes.
\<close>

record TaskBody =
  b_title :: "string option"
  b_description :: "string option"
  b_dueDate :: "int option option"
  b_status :: "string option"
  b_categoryId :: "string option"


definition updateTask :: "db \<Rightarrow> string \<Rightarrow> string \<Rightarrow> TaskBody \<Rightarrow> int \<Rightarrow> outcome \<times> db" where
  "updateTask d userId i b now =
     (case task_findFirst d (anyTask\<lparr> w_id := Some i, w_userId := Some userId \<rparr>) of
        Inl e \<Rightarrow> (Threw e, d)
      | Inr None \<Rightarrow> (respond 404 False (Some ''Task not found'') NoData, d)
      | Inr (Some existingTask) \<Rightarrow>
          (if truthy (b_categoryId b) \<and>
              category_findFirst d (anyCategory\<lparr> cw_id := b_categoryId b, cw_userId := Some userId \<rparr>) = None
           then (respond 400 False (Some ''Category not found or does not belong to user'') NoData, d)
           else
             (case task_update d i
                     \<lparr> tu_title = if_truthy (b_title b), tu_description = b_description b,
                       tu_dueDate = b_dueDate b, tu_status = if_truthy (b_status b),
                       tu_categoryId = b_categoryId b \<rparr> now of
                Inl e \<Rightarrow> (Threw e, d)
              | Inr (t, d') \<Rightarrow>
                  (respond 200 True (Some ''Task updated successfully'') (TaskData (with_category d' t)), d'))))"

definition deleteTask :: "db \<Rightarrow> string \<Rightarrow> string \<Rightarrow> outcome \<times> db" where
  "deleteTask d userId i =
     (case task_findFirst d (anyTask\<lparr> w_id := Some i, w_userId := Some userId \<rparr>) of
        Inl e \<Rightarrow> (Threw e, d)
      | Inr None \<Rightarrow> (respond 404 False (Some ''Task not found'') NoData, d)
      | Inr (Some t) \<Rightarrow>
          (case task_delete d i of
             Inl e \<Rightarrow> (Threw e, d)
           | Inr d' \<Rightarrow> (respond 200 True (Some ''Task deleted successfully'') NoData, d')))"

section \<open>routes/categories.ts\<close>


definition getCategory :: "db \<Rightarrow> string \<Rightarrow> string \<Rightarrow> outcome \<times> db" where
  "getCategory d userId i =
     (case category_findFirst d (anyCategory\<lparr> cw_id := Some i, cw_userId := Some userId \<rparr>) of
        None \<Rightarrow> (respond 404 False (Some ''Category not found'') NoData, d)
      | Some c \<Rightarrow> (respond 200 True None (CategoryDetailData (with_tasks d c)), d))"

record CategoryBody =
  b_name :: "string option"
  b_color :: "string option"

definition createCategory ::
  "db \<Rightarrow> string \<Rightarrow> CategoryBody \<Rightarrow> string \<Rightarrow> int \<Rightarrow> outcome \<times> db" where
  "createCategory d userId b newId now =
     (case category_findFirst d (anyCategory\<lparr> cw_name := b_name b, cw_userId := Some userId \<rparr>) of
        Some existingCategory \<Rightarrow>
          (respond 400 False (Some ''Category with this name already exists'') NoData, d)
      | None \<Rightarrow>
          (case category_create d
                  \<lparr> cc_name = b_name b, cc_color = orElse (b_color b) ''#3B82F6'',
                    cc_userId = userId \<rparr> newId now of
             Inl e \<Rightarrow> (Threw e, d)
           | Inr (c, d') \<Rightarrow>
               (respond 201 True (Some ''Category created successfully'') (CategoryData (with_count d' c)),
                d')))"

definition updateCategory ::
  "db \<Rightarrow> string \<Rightarrow> string \<Rightarrow> CategoryBody \<Rightarrow> int \<Rightarrow> outcome \<times> db" where
  "updateCategory d userId i b now =
     (case category_findFirst d (anyCategory\<lparr> cw_id := Some i, cw_userId := Some userId \<rparr>) of
        None \<Rightarrow> (respond 404 False (Some ''Category not found'') NoData, d)
      | Some existingCategory \<Rightarrow>
          (if truthy (b_name b) \<and> b_name b \<noteq> Some (cat_name existingCategory) \<and>
              category_findFirst d
                (anyCategory\<lparr> cw_name := b_name b, cw_userId := Some userId, cw_id_not := Some i \<rparr>) \<noteq> None
           then (respond 400 False (Some ''Category with this name already exists'') NoData, d)
           else
             (case category_update d i
                     \<lparr> cu_name = if_truthy (b_name b), cu_color = if_truthy (b_color b) \<rparr> now of
                Inl e \<Rightarrow> (Threw e, d)
              | Inr (c, d') \<Rightarrow>
                  (respond 200 True (Some ''Category updated successfully'')
                     (CategoryData (with_count d' c)), d'))))"

text \<open>The count of a category's tasks is written into the refusal, in decimal.\<close>

definition digit_char :: "nat \<Rightarrow> char" where
  "digit_char n = (case drop n ''0123456789'' of [] \<Rightarrow> CHR ''9'' | c # cs \<Rightarrow> c)"

fun decimal :: "nat \<Rightarrow> string" where
  "decimal n = (if n < 10 then [digit_char n] else decimal (n div 10) @ [digit_char (n mod 10)])"

definition deleteCategory :: "db \<Rightarrow> string \<Rightarrow> string \<Rightarrow> outcome \<times> db" where
  "deleteCategory d userId i =
     (case category_findFirst d (anyCategory\<lparr> cw_id := Some i, cw_userId := Some userId \<rparr>) of
        None \<Rightarrow> (respond 404 False (Some ''Category not found'') NoData, d)
      | Some c \<Rightarrow>
          (case task_count d (anyTask\<lparr> w_categoryId := Some i \<rparr>) of
             Inl e \<Rightarrow> (Threw e, d)
           | Inr taskCount \<Rightarrow>
               (if taskCount > 0
                then (respond 400 False
                        (Some (''Cannot delete category. It has '' @ decimal taskCount @
                               '' associated tasks. Please move or delete the tasks first.''))
                        NoData, d)
                else
                  (case category_delete d i of
                     Inl e \<Rightarrow> (Threw e, d)
                   | Inr d' \<Rightarrow> (respond 200 True (Some ''Category deleted successfully'') NoData, d')))))"

section \<open>utils/jwt.ts\<close>

text \<open>
  The environment variables the token functions and the server read
  (\<open>process.env\<close>); a variable that is not set is \<open>None\<close>.
\<close>

record Env =
  JWT_SECRET :: "string option"
  JWT_REFRESH_SECRET :: "string option"
  JWT_EXPIRE :: "string option"
  JWT_REFRESH_EXPIRE :: "string option"
  PORT :: "string option"

text \<open>
  The library \<open>jsonwebtoken\<close>, symbolically: a token is either a signed token, which
  records its payload and the secret that signed it, or a string that is no token.
  \<open>sign\<close> stamps the payload with \<open>iat\<close> (the clock, in seconds) and
  \<open>exp = iat + expiresIn\<close> and the issuer; \<open>verify\<close> accepts a token signed with the
  same secret whose \<open>exp\<close>, when it has one, is after the clock. How the library reads a
  time timespan such as \<open>1h\<close> into seconds is the parameter \<open>timespan\<close> (\<open>None\<close>: not a time
  timespan, and \<open>sign\<close> throws).
\<close>

record JwtPayload =
  jwt_id :: string
  jwt_iat :: "int option"
  jwt_exp :: "int option"
  jwt_iss :: "string option"

datatype token = Signed JwtPayload string | NotAToken string

definition jwt_sign ::
  "(string \<Rightarrow> int option) \<Rightarrow> string \<Rightarrow> string \<Rightarrow> string \<Rightarrow> string \<Rightarrow> int \<Rightarrow> error + token" where
  "jwt_sign timespan userId secret expiresIn issuer clock =
     (case timespan expiresIn of
        None \<Rightarrow> Inl (Error ''expiresIn should be a number of seconds or string representing a timespan'')
      | Some ttl \<Rightarrow>
          Inr (Signed \<lparr> jwt_id = userId, jwt_iat = Some clock, jwt_exp = Some (clock + ttl),
                         jwt_iss = Some issuer \<rparr> secret))"

definition jwt_verify :: "token \<Rightarrow> string \<Rightarrow> int \<Rightarrow> error + JwtPayload" where
  "jwt_verify tok secret clock =
     (case tok of
        NotAToken s \<Rightarrow> Inl (Error ''jwt malformed'')
      | Signed p k \<Rightarrow>
          (if k \<noteq> secret then Inl (Error ''invalid signature'')
           else
             (case jwt_exp p of
                None \<Rightarrow> Inr p
              | Some e \<Rightarrow> (if e \<le> clock then Inl (Error ''jwt expired'') else Inr p))))"

definition generateAccessToken ::
  "(string \<Rightarrow> int option) \<Rightarrow> Env \<Rightarrow> int \<Rightarrow> string \<Rightarrow> error + token" where
  "generateAccessToken timespan env clock userId =
     (case if_truthy (JWT_SECRET env) of
        None \<Rightarrow> Inl (Error ''JWT_SECRET environment variable is not set'')
      | Some secret \<Rightarrow>
          jwt_sign timespan userId secret (orElse (JWT_EXPIRE env) ''1h'') ''task-manager-api'' clock)"


definition verifyAccessToken :: "Env \<Rightarrow> int \<Rightarrow> token \<Rightarrow> error + JwtPayload" where
  "verifyAccessToken env clock tok =
     (case if_truthy (JWT_SECRET env) of
        None \<Rightarrow> Inl (Error ''JWT_SECRET environment variable is not set'')
      | Some secret \<Rightarrow>
          (case jwt_verify tok secret clock of
             Inl e \<Rightarrow> Inl (Error ''Invalid or expired token'')
           | Inr decoded \<Rightarrow> Inr decoded))"


section \<open>server.ts: startServer\<close>



section \<open>The routes\<close>




section \<open>Ownership\<close>





definition others :: "string \<Rightarrow> db \<Rightarrow> db" where
  "others u d =
     \<lparr> categories = filter (\<lambda>c. cat_userId c \<noteq> u) (categories d),
       tasks = filter (\<lambda>t. task_userId t \<noteq> u) (tasks d) \<rparr>"




section \<open>An environment for the examples\<close>

text \<open>
  \<open>demo_env\<close> has both secrets and no other variable; \<open>bare_env\<close> has no variable at
  all. \<open>demo_timespan\<close> reads the two default time spans of the source.
\<close>

definition demo_timespan :: "string \<Rightarrow> int option" where
  "demo_timespan s = (if s = ''1h'' then Some 3600 else if s = ''7d'' then Some 604800 else None)"

definition demo_env :: Env where
  "demo_env = \<lparr> JWT_SECRET = Some ''access-secret'', JWT_REFRESH_SECRET = Some ''refresh-secret'',
                 JWT_EXPIRE = None, JWT_REFRESH_EXPIRE = None, PORT = None \<rparr>"


section \<open>A small store for the examples\<close>

text \<open>
  Two users: \<open>alice\<close> owns the categories \<open>c1\<close> and \<open>c3\<close> and the tasks \<open>t1\<close> (in
  \<open>c1\<close>) and \<open>t3\<close>, \<open>bob\<close> owns the category \<open>c2\<close> and the task \<open>t2\<close> (in \<open>c2\<close>).
\<close>

definition demo_task ::
  "string \<Rightarrow> string \<Rightarrow> TaskStatus \<Rightarrow> int option \<Rightarrow> string option \<Rightarrow> int \<Rightarrow> int \<Rightarrow> Task" where
  "demo_task i u st due cat created updated =
     \<lparr> task_id = i, task_title = ''Task '' @ i, task_description = None, task_dueDate = due,
       task_status = st, task_userId = u, task_categoryId = cat, task_createdAt = created,
       task_updatedAt = updated \<rparr>"

definition demo_category :: "string \<Rightarrow> string \<Rightarrow> string \<Rightarrow> int \<Rightarrow> Category" where
  "demo_category i n u created =
     \<lparr> cat_id = i, cat_name = n, cat_color = ''#3B82F6'', cat_userId = u,
       cat_createdAt = created, cat_updatedAt = created \<rparr>"

definition demo_db :: db where
  "demo_db =
     \<lparr> categories = [demo_category ''c1'' ''Work'' ''alice'' 1, demo_category ''c2'' ''Home'' ''bob'' 2,
                      demo_category ''c3'' ''Errands'' ''alice'' 3],
       tasks = [demo_task ''t1'' ''alice'' PENDING (Some 100) (Some ''c1'') 10 90,
                demo_task ''t2'' ''bob'' COMPLETED None (Some ''c2'') 20 20,
                demo_task ''t3'' ''alice'' CANCELLED None None 30 40] \<rparr>"






section \<open>Reading results\<close>




text \<open>The predicate of the claims about the overdue count, in the spec's words.\<close>

definition is_overdue :: "string \<Rightarrow> int \<Rightarrow> Task \<Rightarrow> bool" where
  "is_overdue userId now t =
     (task_userId t = userId \<and>
      (case task_dueDate t of None \<Rightarrow> False | Some due \<Rightarrow> due < now) \<and>
      task_status t \<noteq> COMPLETED \<and> task_status t \<noteq> CANCELLED)"

definition owned_with_status :: "string \<Rightarrow> TaskStatus \<Rightarrow> Task \<Rightarrow> bool" where
  "owned_with_status userId s t = (task_userId t = userId \<and> task_status t = s)"

text \<open>Reading the counts out of a handler's result.\<close>

definition stats_of :: "outcome \<times> db \<Rightarrow> Stats option" where
  "stats_of r =
     (case fst r of
        Responded a \<Rightarrow> (case res_data a of StatsData s \<Rightarrow> Some s | _ \<Rightarrow> None)
      | Threw e \<Rightarrow> None)"

definition overdue_count :: "outcome \<times> db \<Rightarrow> nat option" where
  "overdue_count r = map_option overdueTasks (stats_of r)"

section \<open>Facts about the stats counts\<close>

lemmas demo_defs = demo_db_def demo_task_def demo_category_def

lemma overdue_where_matches:
  "task_matches (anyTask\<lparr> w_userId := Some u, w_dueDate_lt := Some now,
       w_status_notIn := Some [''COMPLETED'', ''CANCELLED''] \<rparr>) = is_overdue u now"
proof
  fix t show "task_matches (anyTask\<lparr> w_userId := Some u, w_dueDate_lt := Some now,
       w_status_notIn := Some [''COMPLETED'', ''CANCELLED''] \<rparr>) t = is_overdue u now t"
    by (cases "task_status t") (auto simp: task_matches_def anyTask_def is_overdue_def)
qed

lemma status_where_matches:
  "status_of_string s = Some st \<Longrightarrow>
   task_matches (anyTask\<lparr> w_userId := Some u, w_status := Some s \<rparr>) = owned_with_status u st"
  by (rule ext) (auto simp: task_matches_def anyTask_def owned_with_status_def)

lemma user_where_matches:
  "task_matches (anyTask\<lparr> w_userId := Some u \<rparr>) = (\<lambda>t. task_userId t = u)"
  by (rule ext) (simp add: task_matches_def anyTask_def)

lemma getTaskStats_value:
  "getTaskStats d u now =
     (Responded \<lparr> res_status = 200, res_success = True, res_message = None,
        res_data = StatsData \<lparr>
          totalTasks = length (filter (\<lambda>t. task_userId t = u) (tasks d)),
          pendingTasks = length (filter (owned_with_status u PENDING) (tasks d)),
          inProgressTasks = length (filter (owned_with_status u IN_PROGRESS) (tasks d)),
          completedTasks = length (filter (owned_with_status u COMPLETED) (tasks d)),
          overdueTasks = length (filter (is_overdue u now) (tasks d)) \<rparr> \<rparr>, d)"
proof -
  have v: "where_valid (anyTask\<lparr> w_userId := Some u \<rparr>)"
    "where_valid (anyTask\<lparr> w_userId := Some u, w_status := Some ''PENDING'' \<rparr>)"
    "where_valid (anyTask\<lparr> w_userId := Some u, w_status := Some ''IN_PROGRESS'' \<rparr>)"
    "where_valid (anyTask\<lparr> w_userId := Some u, w_status := Some ''COMPLETED'' \<rparr>)"
    "where_valid (anyTask\<lparr> w_userId := Some u, w_dueDate_lt := Some now,
        w_status_notIn := Some [''COMPLETED'', ''CANCELLED''] \<rparr>)"
    by (simp_all add: where_valid_def anyTask_def)
  have s: "status_of_string ''PENDING'' = Some PENDING"
    "status_of_string ''IN_PROGRESS'' = Some IN_PROGRESS"
    "status_of_string ''COMPLETED'' = Some COMPLETED"
    by simp_all
  show ?thesis
    unfolding getTaskStats_def task_count_def
    by (simp only: v if_True sum.case overdue_where_matches user_where_matches
          status_where_matches [OF s(1)] status_where_matches [OF s(2)]
          status_where_matches [OF s(3)])
qed

lemma status_partition:
  "length (filter (\<lambda>t. task_userId t = u) ts) =
     length (filter (owned_with_status u PENDING) ts) +
     length (filter (owned_with_status u IN_PROGRESS) ts) +
     length (filter (owned_with_status u COMPLETED) ts) +
     length (filter (owned_with_status u CANCELLED) ts)"
proof (induction ts)
  case Nil
  show ?case by simp
next
  case (Cons t ts)
  then show ?case
    by (cases "task_status t") (simp_all add: owned_with_status_def)
qed

section \<open>Claims about the stats aggregator\<close>

text \<open>
  Claim C7. The stats operation answers 200 with five counts and leaves the store as it
  was; its overdue count is the number of rows of the task table whose user id is the
  authenticated one, whose due date is set and strictly before the current time, and
  whose status is neither COMPLETED nor CANCELLED. So for a task \<open>t\<close> of the user
  with a due date in the past: put in the table with status PENDING it raises the count
  by one, put there with status COMPLETED it leaves the count as it is.
\<close>

theorem getTaskStats_overdue:
  "overdue_count (getTaskStats d u now) =
     Some (length (filter (\<lambda>t. task_userId t = u \<and>
                              (case task_dueDate t of None \<Rightarrow> False | Some due \<Rightarrow> due < now) \<and>
                              task_status t \<noteq> COMPLETED \<and> task_status t \<noteq> CANCELLED) (tasks d)))
   \<and> snd (getTaskStats d u now) = d
   \<and> (task_userId t = u \<and> task_dueDate t = Some due \<and> due < now \<longrightarrow>
        overdue_count (getTaskStats (d\<lparr> tasks := t\<lparr> task_status := PENDING \<rparr> # tasks d \<rparr>) u now) =
          map_option Suc (overdue_count (getTaskStats d u now))
      \<and> overdue_count (getTaskStats (d\<lparr> tasks := t\<lparr> task_status := COMPLETED \<rparr> # tasks d \<rparr>) u now) =
          overdue_count (getTaskStats d u now))"
proof -
  have c: "overdue_count (getTaskStats d' u now) = Some (length (filter (is_overdue u now) (tasks d')))"
    for d'
    by (simp add: getTaskStats_value overdue_count_def stats_of_def)
  have p: "is_overdue u now (t\<lparr> task_status := PENDING \<rparr>)"
    if "task_userId t = u" "task_dueDate t = Some due" "due < now"
    using that by (simp add: is_overdue_def)
  have q: "\<not> is_overdue u now (t\<lparr> task_status := COMPLETED \<rparr>)"
    by (simp add: is_overdue_def)
  have e: "is_overdue u now = (\<lambda>t. task_userId t = u \<and>
             (case task_dueDate t of None \<Rightarrow> False | Some due \<Rightarrow> due < now) \<and>
             task_status t \<noteq> COMPLETED \<and> task_status t \<noteq> CANCELLED)"
    by (rule ext) (simp add: is_overdue_def)
  have 1: "overdue_count (getTaskStats d u now) =
     Some (length (filter (\<lambda>t. task_userId t = u \<and>
                              (case task_dueDate t of None \<Rightarrow> False | Some due \<Rightarrow> due < now) \<and>
                              task_status t \<noteq> COMPLETED \<and> task_status t \<noteq> CANCELLED) (tasks d)))"
    unfolding c e ..
  have 2: "snd (getTaskStats d u now) = d"
    by (simp add: getTaskStats_value)
  have 3: "overdue_count (getTaskStats (d\<lparr> tasks := t\<lparr> task_status := PENDING \<rparr> # tasks d \<rparr>) u now) =
          map_option Suc (overdue_count (getTaskStats d u now))"
    if "task_userId t = u" "task_dueDate t = Some due" "due < now"
    unfolding c using p [OF that] by simp
  have 4: "overdue_count (getTaskStats (d\<lparr> tasks := t\<lparr> task_status := COMPLETED \<rparr> # tasks d \<rparr>) u now) =
          overdue_count (getTaskStats d u now)"
    unfolding c using q by simp
  show ?thesis
    using 1 2 3 4 by blast
qed

theorem getTaskStats_overdue_witness:
  "overdue_count (getTaskStats
      \<lparr> categories = [],
        tasks = [\<lparr> task_id = ''t1'', task_title = ''Pay rent'', task_description = None,
                   task_dueDate = Some 100, task_status = PENDING, task_userId = ''alice'',
                   task_categoryId = None, task_createdAt = 1, task_updatedAt = 1 \<rparr>] \<rparr>
      ''alice'' 500) = Some 1
   \<and> overdue_count (getTaskStats
      \<lparr> categories = [],
        tasks = [\<lparr> task_id = ''t1'', task_title = ''Pay rent'', task_description = None,
                   task_dueDate = Some 100, task_status = COMPLETED, task_userId = ''alice'',
                   task_categoryId = None, task_createdAt = 1, task_updatedAt = 1 \<rparr>] \<rparr>
      ''alice'' 500) = Some 0"
  using getTaskStats_overdue [of "\<lparr> categories = [], tasks = [] \<rparr>" "''alice''" 500
      "\<lparr> task_id = ''t1'', task_title = ''Pay rent'', task_description = None,
         task_dueDate = Some 100, task_status = PENDING, task_userId = ''alice'',
         task_categoryId = None, task_createdAt = 1, task_updatedAt = 1 \<rparr>" 100]
  by simp

text \<open>
  Claim C10. In the answer of the stats operation the counts of PENDING, IN_PROGRESS and
  COMPLETED tasks add up to at most the total, for every user and every store; the sum
  equals the total exactly when the user has no CANCELLED task (the total exceeds the
  sum by the number of the user's CANCELLED tasks, which the answer does not report).
\<close>

theorem getTaskStats_counts_sum:
  "\<exists>s. stats_of (getTaskStats d u now) = Some s
     \<and> pendingTasks s + inProgressTasks s + completedTasks s \<le> totalTasks s
     \<and> totalTasks s = pendingTasks s + inProgressTasks s + completedTasks s +
           length (filter (\<lambda>t. task_userId t = u \<and> task_status t = CANCELLED) (tasks d))
     \<and> ((pendingTasks s + inProgressTasks s + completedTasks s = totalTasks s) =
          (filter (\<lambda>t. task_userId t = u \<and> task_status t = CANCELLED) (tasks d) = []))"
proof -
  have e: "owned_with_status u CANCELLED = (\<lambda>t. task_userId t = u \<and> task_status t = CANCELLED)"
    by (rule ext) (simp add: owned_with_status_def)
  show ?thesis
    using status_partition [of u "tasks d"]
    by (simp add: getTaskStats_value stats_of_def e)
qed

section \<open>Facts about the lookups\<close>

lemma task_findFirst_owned:
  "task_findFirst d (anyTask\<lparr> w_id := Some i, w_userId := Some u \<rparr>) =
     Inr (find (\<lambda>t. task_id t = i \<and> task_userId t = u) (tasks d))"
proof -
  have "task_matches (anyTask\<lparr> w_id := Some i, w_userId := Some u \<rparr>) =
          (\<lambda>t. task_id t = i \<and> task_userId t = u)"
    by (rule ext) (simp add: task_matches_def anyTask_def)
  then show ?thesis
    by (simp add: task_findFirst_def where_valid_def anyTask_def)
qed


lemma category_findFirst_owned:
  "category_findFirst d (anyCategory\<lparr> cw_id := Some i, cw_userId := Some u \<rparr>) =
     find (\<lambda>c. cat_id c = i \<and> cat_userId c = u) (categories d)"
proof -
  have "category_matches (anyCategory\<lparr> cw_id := Some i, cw_userId := Some u \<rparr>) =
          (\<lambda>c. cat_id c = i \<and> cat_userId c = u)"
    by (rule ext) (simp add: category_matches_def anyCategory_def)
  then show ?thesis
    by (simp add: category_findFirst_def)
qed

lemma category_findFirst_named:
  "category_findFirst d (anyCategory\<lparr> cw_name := Some n, cw_userId := Some u \<rparr>) =
     find (\<lambda>c. cat_userId c = u \<and> cat_name c = n) (categories d)"
proof -
  have "category_matches (anyCategory\<lparr> cw_name := Some n, cw_userId := Some u \<rparr>) =
          (\<lambda>c. cat_userId c = u \<and> cat_name c = n)"
    by (rule ext) (simp add: category_matches_def anyCategory_def)
  then show ?thesis
    by (simp add: category_findFirst_def)
qed

lemma category_findFirst_other_named:
  "category_findFirst d (anyCategory\<lparr> cw_name := Some n, cw_userId := Some u, cw_id_not := Some i \<rparr>) =
     find (\<lambda>c. cat_userId c = u \<and> cat_name c = n \<and> cat_id c \<noteq> i) (categories d)"
proof -
  have "category_matches (anyCategory\<lparr> cw_name := Some n, cw_userId := Some u, cw_id_not := Some i \<rparr>) =
          (\<lambda>c. cat_userId c = u \<and> cat_name c = n \<and> cat_id c \<noteq> i)"
    by (rule ext) (simp add: category_matches_def anyCategory_def)
  then show ?thesis
    by (simp add: category_findFirst_def)
qed

lemma find_present: "x \<in> set xs \<Longrightarrow> P x \<Longrightarrow> find P xs \<noteq> None"
  by (auto simp: find_None_iff)

lemma find_absent: "(\<forall>x \<in> set xs. \<not> P x) \<Longrightarrow> find P xs = None"
  by (simp add: find_None_iff)

lemma find_result: "find P xs = Some x \<Longrightarrow> x \<in> set xs \<and> P x"
  by (induction xs) (auto split: if_splits)

lemma respond_inject:
  "(respond a b c e = respond a' b' c' e') = (a = a' \<and> b = b' \<and> c = c' \<and> e = e')"
  by (auto simp: respond_def)

lemma Threw_not_respond: "Threw x \<noteq> respond a b c e" "respond a b c e \<noteq> Threw x"
  by (simp_all add: respond_def)


lemma count_by_category:
  "task_count d (anyTask\<lparr> w_categoryId := Some i \<rparr>) =
     Inr (length (filter (\<lambda>t. task_categoryId t = Some i) (tasks d)))"
proof -
  have "task_matches (anyTask\<lparr> w_categoryId := Some i \<rparr>) = (\<lambda>t. task_categoryId t = Some i)"
    by (rule ext) (simp add: task_matches_def anyTask_def)
  then show ?thesis
    by (simp add: task_count_def where_valid_def anyTask_def)
qed

lemma category_delete_unreferenced:
  assumes "c \<in> set (categories d)" "cat_id c = i"
    "filter (\<lambda>t. task_categoryId t = Some i) (tasks d) = []"
  shows "category_delete d i = Inr (d\<lparr> categories := filter (\<lambda>x. cat_id x \<noteq> i) (categories d) \<rparr>)"
proof -
  have "find (\<lambda>c. cat_id c = i) (categories d) \<noteq> None"
    using assms(1,2) by (rule find_present)
  moreover have "map (\<lambda>t. if task_categoryId t = Some i then t\<lparr> task_categoryId := None \<rparr> else t) (tasks d)
                 = tasks d"
    using assms(3) by (intro map_idI) (auto simp: filter_empty_conv)
  ultimately show ?thesis
    by (auto simp: category_delete_def)
qed


lemma createCategory_conflict:
  assumes "b_name b = Some n" "c \<in> set (categories d)" "cat_userId c = u" "cat_name c = n"
  shows "createCategory d u b newId now =
           (respond 400 False (Some ''Category with this name already exists'') NoData, d)"
proof -
  have "find (\<lambda>c. cat_userId c = u \<and> cat_name c = n) (categories d) \<noteq> None"
    using assms(2-4) by (intro find_present [of c]) simp_all
  then show ?thesis
    by (auto simp: createCategory_def assms(1) category_findFirst_named)
qed

lemma createCategory_fresh:
  assumes "b_name b = Some n" "\<forall>c \<in> set (categories d). cat_userId c = u \<longrightarrow> cat_name c \<noteq> n"
    "newId \<notin> set (map cat_id (categories d))"
  shows "createCategory d u b newId now =
          (let row = \<lparr> cat_id = newId, cat_name = n, cat_color = orElse (b_color b) ''#3B82F6'',
                        cat_userId = u, cat_createdAt = now, cat_updatedAt = now \<rparr>;
               d' = d\<lparr> categories := categories d @ [row] \<rparr>
           in (respond 201 True (Some ''Category created successfully'') (CategoryData (with_count d' row)), d'))"
proof -
  have "find (\<lambda>c. cat_userId c = u \<and> cat_name c = n) (categories d) = None"
    using assms(2) by (intro find_absent) blast
  then show ?thesis
    using assms(3)
    by (simp add: createCategory_def assms(1) category_findFirst_named category_create_def Let_def)
qed

lemma updateCategory_conflict_only:
  assumes "fst (updateCategory d u i b now) =
             respond 400 False (Some ''Category with this name already exists'') NoData"
  shows "snd (updateCategory d u i b now) = d \<and>
         (\<exists>c \<in> set (categories d). cat_userId c = u \<and> cat_id c \<noteq> i \<and> b_name b = Some (cat_name c))"
proof (cases "category_findFirst d (anyCategory\<lparr> cw_id := Some i, cw_userId := Some u \<rparr>)")
  case None
  with assms show ?thesis
    by (simp add: updateCategory_def respond_inject)
next
  case (Some existing)
  show ?thesis
  proof (cases "truthy (b_name b) \<and> b_name b \<noteq> Some (cat_name existing) \<and>
              category_findFirst d
                (anyCategory\<lparr> cw_name := b_name b, cw_userId := Some u, cw_id_not := Some i \<rparr>) \<noteq> None")
    case True
    then obtain n where n: "b_name b = Some n"
      by (auto simp: truthy_def split: option.splits)
    from True obtain c where "find (\<lambda>c. cat_userId c = u \<and> cat_name c = n \<and> cat_id c \<noteq> i) (categories d) = Some c"
      by (auto simp: n category_findFirst_other_named)
    then have "c \<in> set (categories d) \<and> cat_userId c = u \<and> cat_name c = n \<and> cat_id c \<noteq> i"
      by (auto dest: find_result)
    moreover have "snd (updateCategory d u i b now) = d"
      using True Some by (simp add: updateCategory_def)
    ultimately show ?thesis
      using n by auto
  next
    case False
    with assms Some show ?thesis
      by (auto simp: updateCategory_def respond_inject Threw_not_respond split: sum.splits)
  qed
qed

section \<open>Claims about resource authorization\<close>

text \<open>
  Claim C2. Reading, updating or deleting a task or a category by id, when the table has
  no row with that id and the authenticated user as owner (the id is absent, or its row
  belongs to another user): the one lookup, filtered by id and owner, finds nothing, the
  answer is the same 404 (\<open>Task not found\<close>, \<open>Category not found\<close>) in both cases, and
  the store is left as it was.
\<close>

theorem foreign_or_absent_is_not_found:
  "((\<forall>t \<in> set (tasks d). task_id t = i \<longrightarrow> task_userId t \<noteq> u) \<longrightarrow>
      task_findFirst d (anyTask\<lparr> w_id := Some i, w_userId := Some u \<rparr>) = Inr None
      \<and> getTask d u i = (respond 404 False (Some ''Task not found'') NoData, d)
      \<and> updateTask d u i b now = (respond 404 False (Some ''Task not found'') NoData, d)
      \<and> deleteTask d u i = (respond 404 False (Some ''Task not found'') NoData, d))
   \<and> ((\<forall>c \<in> set (categories d). cat_id c = i \<longrightarrow> cat_userId c \<noteq> u) \<longrightarrow>
      category_findFirst d (anyCategory\<lparr> cw_id := Some i, cw_userId := Some u \<rparr>) = None
      \<and> getCategory d u i = (respond 404 False (Some ''Category not found'') NoData, d)
      \<and> updateCategory d u i cb now = (respond 404 False (Some ''Category not found'') NoData, d)
      \<and> deleteCategory d u i = (respond 404 False (Some ''Category not found'') NoData, d))"
proof (intro conjI impI)
  assume a: "\<forall>t \<in> set (tasks d). task_id t = i \<longrightarrow> task_userId t \<noteq> u"
  then have f: "find (\<lambda>t. task_id t = i \<and> task_userId t = u) (tasks d) = None"
    by (intro find_absent) blast
  show "task_findFirst d (anyTask\<lparr> w_id := Some i, w_userId := Some u \<rparr>) = Inr None"
    by (simp add: task_findFirst_owned f)
  show "getTask d u i = (respond 404 False (Some ''Task not found'') NoData, d)"
    by (simp add: getTask_def task_findFirst_owned f)
  show "updateTask d u i b now = (respond 404 False (Some ''Task not found'') NoData, d)"
    by (simp add: updateTask_def task_findFirst_owned f)
  show "deleteTask d u i = (respond 404 False (Some ''Task not found'') NoData, d)"
    by (simp add: deleteTask_def task_findFirst_owned f)
next
  assume a: "\<forall>c \<in> set (categories d). cat_id c = i \<longrightarrow> cat_userId c \<noteq> u"
  then have f: "find (\<lambda>c. cat_id c = i \<and> cat_userId c = u) (categories d) = None"
    by (intro find_absent) blast
  show "category_findFirst d (anyCategory\<lparr> cw_id := Some i, cw_userId := Some u \<rparr>) = None"
    by (simp add: category_findFirst_owned f)
  show "getCategory d u i = (respond 404 False (Some ''Category not found'') NoData, d)"
    by (simp add: getCategory_def category_findFirst_owned f)
  show "updateCategory d u i cb now = (respond 404 False (Some ''Category not found'') NoData, d)"
    by (simp add: updateCategory_def category_findFirst_owned f)
  show "deleteCategory d u i = (respond 404 False (Some ''Category not found'') NoData, d)"
    by (simp add: deleteCategory_def category_findFirst_owned f)
qed

theorem foreign_or_absent_is_not_found_witness:
  "getTask demo_db ''alice'' ''t2'' = (respond 404 False (Some ''Task not found'') NoData, demo_db)
   \<and> getTask demo_db ''alice'' ''t9'' = getTask demo_db ''alice'' ''t2''
   \<and> deleteTask demo_db ''alice'' ''t2'' = (respond 404 False (Some ''Task not found'') NoData, demo_db)
   \<and> deleteCategory demo_db ''alice'' ''c2'' =
       (respond 404 False (Some ''Category not found'') NoData, demo_db)
   \<and> deleteCategory demo_db ''alice'' ''c9'' = deleteCategory demo_db ''alice'' ''c2''"
  using foreign_or_absent_is_not_found [of demo_db "''t2''" "''alice''"]
    foreign_or_absent_is_not_found [of demo_db "''t9''" "''alice''"]
    foreign_or_absent_is_not_found [of demo_db "''c2''" "''alice''"]
    foreign_or_absent_is_not_found [of demo_db "''c9''" "''alice''"]
  by (simp add: demo_defs)

section \<open>Claims about categories\<close>

text \<open>
  Claim C8. Creating a category under a name that one of the user's own categories
  bears is refused with 400 (\<open>Category with this name already exists\<close>) and the
  store is left as it was. Creating it for a user who has no category of that name
  succeeds with 201 and appends the new row, whatever categories other users have:
  the name is unique per owner. An update answers with that refusal only when another
  category of the same owner, not the one being updated, bears the new name, and then
  leaves the store as it was.
\<close>

theorem category_name_unique_per_owner:
  "(b_name b = Some n \<and> c \<in> set (categories d) \<and> cat_userId c = u \<and> cat_name c = n \<longrightarrow>
      createCategory d u b newId now =
        (respond 400 False (Some ''Category with this name already exists'') NoData, d))
   \<and> (b_name b = Some n \<and> (\<forall>x \<in> set (categories d). cat_userId x = v \<longrightarrow> cat_name x \<noteq> n) \<and>
        newId \<notin> set (map cat_id (categories d)) \<longrightarrow>
      createCategory d v b newId now =
        (let row = \<lparr> cat_id = newId, cat_name = n, cat_color = orElse (b_color b) ''#3B82F6'',
                      cat_userId = v, cat_createdAt = now, cat_updatedAt = now \<rparr>;
             d' = d\<lparr> categories := categories d @ [row] \<rparr>
         in (respond 201 True (Some ''Category created successfully'')
               (CategoryData (with_count d' row)), d')))
   \<and> (fst (updateCategory d u i b now) =
          respond 400 False (Some ''Category with this name already exists'') NoData \<longrightarrow>
        snd (updateCategory d u i b now) = d \<and>
        (\<exists>x \<in> set (categories d). cat_userId x = u \<and> cat_id x \<noteq> i \<and> b_name b = Some (cat_name x)))"
  using createCategory_conflict [of b n c d u newId now]
    createCategory_fresh [of b n d v newId now]
    updateCategory_conflict_only [of d u i b now]
  by blast

theorem category_name_unique_per_owner_witness:
  "createCategory demo_db ''alice'' \<lparr> b_name = Some ''Work'', b_color = None \<rparr> ''c4'' 50 =
     (respond 400 False (Some ''Category with this name already exists'') NoData, demo_db)
   \<and> fst (createCategory demo_db ''bob'' \<lparr> b_name = Some ''Work'', b_color = None \<rparr> ''c4'' 50) =
       respond 201 True (Some ''Category created successfully'')
         (CategoryData \<lparr> cv_category = \<lparr> cat_id = ''c4'', cat_name = ''Work'', cat_color = ''#3B82F6'',
                           cat_userId = ''bob'', cat_createdAt = 50, cat_updatedAt = 50 \<rparr>,
                         cv_taskCount = 0 \<rparr>)
   \<and> map cat_id (categories (snd (createCategory demo_db ''bob''
         \<lparr> b_name = Some ''Work'', b_color = None \<rparr> ''c4'' 50))) = [''c1'', ''c2'', ''c3'', ''c4'']
   \<and> updateCategory demo_db ''alice'' ''c3'' \<lparr> b_name = Some ''Work'', b_color = None \<rparr> 60 =
       (respond 400 False (Some ''Category with this name already exists'') NoData, demo_db)
   \<and> (\<exists>x \<in> set (categories demo_db). cat_userId x = ''alice'' \<and> cat_id x \<noteq> ''c3'' \<and>
         cat_name x = ''Work'')"
proof -
  have u: "updateCategory demo_db ''alice'' ''c3'' \<lparr> b_name = Some ''Work'', b_color = None \<rparr> 60 =
       (respond 400 False (Some ''Category with this name already exists'') NoData, demo_db)"
    by (simp add: updateCategory_def category_findFirst_def category_matches_def anyCategory_def
        truthy_def demo_defs)
  show ?thesis
    using category_name_unique_per_owner [of "\<lparr> b_name = Some ''Work'', b_color = None \<rparr>" "''Work''"
        "demo_category ''c1'' ''Work'' ''alice'' 1" demo_db "''alice''" "''c4''" 50 "''bob''" "''c3''"]
    unfolding u
    by (simp add: demo_defs orElse_def with_count_def tasks_of_category_def Let_def)
qed

text \<open>
  Claim C9. Deleting a category that the authenticated user owns: while tasks refer to
  it, the answer is 400 with the number of those tasks in the message, and the store
  (the category and its tasks) is left as it was; when no task refers to it, the answer
  is 200 and the category's row is removed, nothing else.
\<close>

theorem deleteCategory_guard:
  "c \<in> set (categories d) \<and> cat_id c = i \<and> cat_userId c = u \<longrightarrow>
     deleteCategory d u i =
       (let n = length (filter (\<lambda>t. task_categoryId t = Some i) (tasks d)) in
        if n > 0
        then (respond 400 False
                (Some (''Cannot delete category. It has '' @ decimal n @
                       '' associated tasks. Please move or delete the tasks first.'')) NoData, d)
        else (respond 200 True (Some ''Category deleted successfully'') NoData,
              d\<lparr> categories := filter (\<lambda>x. cat_id x \<noteq> i) (categories d) \<rparr>))"
proof
  assume a: "c \<in> set (categories d) \<and> cat_id c = i \<and> cat_userId c = u"
  then have "find (\<lambda>c. cat_id c = i \<and> cat_userId c = u) (categories d) \<noteq> None"
    by (intro find_present [of c]) simp_all
  then obtain c' where f: "find (\<lambda>c. cat_id c = i \<and> cat_userId c = u) (categories d) = Some c'"
    by blast
  show "deleteCategory d u i =
       (let n = length (filter (\<lambda>t. task_categoryId t = Some i) (tasks d)) in
        if n > 0
        then (respond 400 False
                (Some (''Cannot delete category. It has '' @ decimal n @
                       '' associated tasks. Please move or delete the tasks first.'')) NoData, d)
        else (respond 200 True (Some ''Category deleted successfully'') NoData,
              d\<lparr> categories := filter (\<lambda>x. cat_id x \<noteq> i) (categories d) \<rparr>))"
  proof (cases "filter (\<lambda>t. task_categoryId t = Some i) (tasks d) = []")
    case True
    with a have "category_delete d i = Inr (d\<lparr> categories := filter (\<lambda>x. cat_id x \<noteq> i) (categories d) \<rparr>)"
      by (intro category_delete_unreferenced [of c]) simp_all
    with True show ?thesis
      by (simp add: deleteCategory_def category_findFirst_owned f count_by_category)
  next
    case False
    then show ?thesis
      by (simp add: deleteCategory_def category_findFirst_owned f count_by_category Let_def)
  qed
qed

theorem deleteCategory_guard_witness:
  "deleteCategory demo_db ''alice'' ''c1'' =
     (respond 400 False
        (Some ''Cannot delete category. It has 1 associated tasks. Please move or delete the tasks first.'')
        NoData, demo_db)
   \<and> fst (deleteCategory (snd (deleteTask demo_db ''alice'' ''t1'')) ''alice'' ''c1'') =
       respond 200 True (Some ''Category deleted successfully'') NoData
   \<and> map cat_id (categories (snd (deleteCategory (snd (deleteTask demo_db ''alice'' ''t1'')) ''alice'' ''c1'')))
       = [''c2'', ''c3'']"
proof -
  have t: "deleteTask demo_db ''alice'' ''t1'' =
     (respond 200 True (Some ''Task deleted successfully'') NoData,
      demo_db\<lparr> tasks := [demo_task ''t2'' ''bob'' COMPLETED None (Some ''c2'') 20 20,
                demo_task ''t3'' ''alice'' CANCELLED None None 30 40] \<rparr>)"
    by (simp add: deleteTask_def task_findFirst_def where_valid_def anyTask_def task_matches_def
        task_delete_def demo_defs)
  show ?thesis
    using deleteCategory_guard [of "demo_category ''c1'' ''Work'' ''alice'' 1" demo_db "''c1''" "''alice''"]
      deleteCategory_guard [of "demo_category ''c1'' ''Work'' ''alice'' 1"
         "snd (deleteTask demo_db ''alice'' ''t1'')" "''c1''" "''alice''"]
    unfolding t
    by (simp add: demo_defs digit_char_def)
qed

section \<open>Facts about ordering and the list query\<close>
























section \<open>Claims about the query engine\<close>








section \<open>Claims about the token service\<close>

text \<open>
  Claim C5. With the access secret set (and not empty) and a time span the library
  reads, issuing an access token for a user id \<open>u\<close> succeeds, and verifying that
  token at any time from the issuing up to its expiry returns a payload whose id is
  \<open>u\<close>.
\<close>

theorem access_token_round_trip:
  "JWT_SECRET env = Some secret \<and> secret \<noteq> [] \<and>
   timespan (orElse (JWT_EXPIRE env) ''1h'') = Some ttl \<and> clock \<le> clock' \<and> clock' < clock + ttl \<longrightarrow>
     (\<exists>tok p. generateAccessToken timespan env clock u = Inr tok \<and>
              verifyAccessToken env clock' tok = Inr p \<and> jwt_id p = u)"
  by (simp add: generateAccessToken_def verifyAccessToken_def jwt_sign_def jwt_verify_def
      if_truthy_def truthy_def)

theorem access_token_round_trip_witness:
  "\<exists>tok p. generateAccessToken demo_timespan demo_env 1000 ''alice'' = Inr tok \<and>
           verifyAccessToken demo_env 1000 tok = Inr p \<and> jwt_id p = ''alice''"
  using access_token_round_trip [of demo_env "''access-secret''" demo_timespan 3600 1000 1000 "''alice''"]
  by (simp add: demo_env_def demo_timespan_def orElse_def)






section \<open>Facts about ownership\<close>
























lemma id_owner_where:
  "w_userId (anyTask\<lparr> w_id := Some i, w_userId := Some u \<rparr>) = Some u"
  "cw_userId (anyCategory\<lparr> cw_id := Some i, cw_userId := Some u \<rparr>) = Some u"
  by simp_all

















lemma category_present:
  "c \<in> set (categories d) \<Longrightarrow> \<not> category_missing d (Some (cat_id c))"
  by (simp add: category_missing_def)







lemma others_tables:
  "tasks (others u d) = filter (\<lambda>t. task_userId t \<noteq> u) (tasks d)"
  "categories (others u d) = filter (\<lambda>c. cat_userId c \<noteq> u) (categories d)"
  by (simp_all add: others_def)

lemma others_eqI:
  "filter (\<lambda>t. task_userId t \<noteq> u) (tasks d') = filter (\<lambda>t. task_userId t \<noteq> u) (tasks d) \<Longrightarrow>
   filter (\<lambda>c. cat_userId c \<noteq> u) (categories d') = filter (\<lambda>c. cat_userId c \<noteq> u) (categories d) \<Longrightarrow>
   others u d' = others u d"
  by (simp add: others_def)






















lemma named_where: "cw_userId (anyCategory\<lparr> cw_name := n, cw_userId := Some u \<rparr>) = Some u"
  "cw_userId (anyCategory\<lparr> cw_name := n, cw_userId := Some u, cw_id_not := Some i \<rparr>) = Some u"
  by simp_all

















lemma apply_task_update_id: "task_id (apply_task_update a now t) = task_id t"
  by (simp add: apply_task_update_def)















section \<open>Claims about owner scoping\<close>




end
